theory Spec2Isabelle
  imports Complex_Main "HOL-Library.Multiset"
begin

chapter \<open>qdrant-client: schema conversion and collection migration\<close>

text \<open>
  A shallow embedding of \<^verbatim>\<open>qdrant_client/conversions/conversion.py\<close> (the classes
  \<^verbatim>\<open>GrpcToRest\<close> and \<^verbatim>\<open>RestToGrpc\<close>) and of
  \<^verbatim>\<open>qdrant_client/migrate/migrate.py\<close>. A Python exception is the left summand
  of a sum type, \<^verbatim>\<open>None\<close> is the option \<open>None\<close>, and a call on a client is a
  function on an explicit world state together with a log of the calls made.
\<close>

section \<open>The two wire formats\<close>

subsection \<open>Enumerations\<close>

text \<open>
  Modelled from the spec: the model classes of \<^verbatim>\<open>qdrant_client.grpc\<close> and
  \<^verbatim>\<open>qdrant_client.http.models\<close> are imported by the converters and are not part
  of the source files. Their members are the names the converters mention; each grpc
  enumeration has in addition the zero member that protobuf requires, which is the only
  way to reach the converters' final \<^verbatim>\<open>else\<close> branches.
\<close>

datatype grpc_Distance = UnknownDistance | Cosine | Euclid | Dot

datatype http_Distance = COSINE | EUCLID | DOT

datatype grpc_UpdateStatus = UnknownUpdateStatus | Acknowledged | Completed

datatype http_UpdateStatus = ACKNOWLEDGED | COMPLETED

datatype grpc_CollectionStatus = UnknownCollectionStatus | Green | Yellow | Red

datatype http_CollectionStatus = GREEN | YELLOW | RED

datatype grpc_PayloadSchemaType = UnknownType | Keyword | Integer | Float | Geo

datatype http_PayloadSchemaType = KEYWORD | INTEGER | FLOAT | GEO

record grpc_UpdateResult =
  operation_id :: nat
  status :: grpc_UpdateStatus

record http_UpdateResult =
  operation_id :: nat
  status :: http_UpdateStatus

subsection \<open>Messages with a group of alternatives\<close>

text \<open>
  Modelled from the spec: a grpc message with a \<^verbatim>\<open>oneof\<close> group (PointId, Match,
  Condition) has at most one field of the group set. The constructor \<open>X_unset\<close> is the
  message built with no argument, \<open>X_f v\<close> is \<^verbatim>\<open>grpc.X(f=v)\<close>. Reading a field
  that is not the one set gives the default of its type (\<open>0\<close>, the empty string,
  \<open>False\<close>, the empty message): the functions \<open>f_of\<close> below are those attribute reads.
\<close>

datatype grpc_PointId = PointId_unset | PointId_num nat | PointId_uuid string

definition num_of :: "grpc_PointId \<Rightarrow> nat" where
  "num_of model = (case model of PointId_num n \<Rightarrow> n | _ \<Rightarrow> 0)"

definition uuid_of :: "grpc_PointId \<Rightarrow> string" where
  "uuid_of model = (case model of PointId_uuid s \<Rightarrow> s | _ \<Rightarrow> [])"

datatype grpc_Match = Match_unset | Match_keyword string | Match_integer int | Match_boolean bool

definition keyword_of :: "grpc_Match \<Rightarrow> string" where
  "keyword_of model = (case model of Match_keyword s \<Rightarrow> s | _ \<Rightarrow> [])"

definition integer_of :: "grpc_Match \<Rightarrow> int" where
  "integer_of model = (case model of Match_integer i \<Rightarrow> i | _ \<Rightarrow> 0)"

definition boolean_of :: "grpc_Match \<Rightarrow> bool" where
  "boolean_of model = (case model of Match_boolean b \<Rightarrow> b | _ \<Rightarrow> False)"

text \<open>
  \<^verbatim>\<open>http.ExtendedPointId = Union[StrictInt, StrictStr]\<close>,
  \<^verbatim>\<open>http.ValueVariants = Union[StrictBool, StrictInt, StrictStr]\<close> and
  \<^verbatim>\<open>http.Match = Union[MatchValue, MatchKeyword, MatchInteger]\<close>.
\<close>

datatype http_ExtendedPointId = Id_int int | Id_str string

datatype http_ValueVariants = Value_bool bool | Value_int int | Value_str string

datatype http_Match = MatchValue http_ValueVariants | MatchKeyword string | MatchInteger int

subsection \<open>Plain messages\<close>

record grpc_GeoPoint =
  lon :: real
  lat :: real

record http_GeoPoint =
  lat :: real
  lon :: real

record grpc_GeoRadius =
  center :: grpc_GeoPoint
  radius :: real

record http_GeoRadius =
  center :: http_GeoPoint
  radius :: real

record grpc_GeoBoundingBox =
  top_left :: grpc_GeoPoint
  bottom_right :: grpc_GeoPoint

record http_GeoBoundingBox =
  bottom_right :: http_GeoPoint
  top_left :: http_GeoPoint

record grpc_Range =
  lt :: real
  gt :: real
  gte :: real
  lte :: real

record http_Range =
  gt :: "real option"
  gte :: "real option"
  lt :: "real option"
  lte :: "real option"

record grpc_ValuesCount =
  lt :: nat
  gt :: nat
  gte :: nat
  lte :: nat

record http_ValuesCount =
  gt :: "int option"
  gte :: "int option"
  lt :: "int option"
  lte :: "int option"

record grpc_FieldCondition =
  key :: string
  match :: grpc_Match
  range :: grpc_Range
  geo_bounding_box :: grpc_GeoBoundingBox
  geo_radius :: grpc_GeoRadius
  values_count :: grpc_ValuesCount

record http_FieldCondition =
  key :: string
  geo_bounding_box :: "http_GeoBoundingBox option"
  geo_radius :: "http_GeoRadius option"
  match :: "http_Match option"
  range :: "http_Range option"
  values_count :: "http_ValuesCount option"

record grpc_IsEmptyCondition =
  key :: string

record http_PayloadField =
  key :: string

record http_IsEmptyCondition =
  is_empty :: http_PayloadField

record grpc_HasIdCondition =
  has_id :: "grpc_PointId list"

record http_HasIdCondition =
  has_id :: "http_ExtendedPointId list"

text \<open>
  A filter holds conditions and a condition may hold a filter.
  \<^verbatim>\<open>http.Condition = Union[FieldCondition, IsEmptyCondition, HasIdCondition, Filter]\<close>;
  the lists of an \<^verbatim>\<open>http.Filter\<close> are optional.
\<close>

datatype grpc_Condition =
    Condition_unset
  | Condition_field grpc_FieldCondition
  | Condition_is_empty grpc_IsEmptyCondition
  | Condition_has_id grpc_HasIdCondition
  | Condition_filter grpc_Filter
and grpc_Filter =
    grpc_Filter (should: "grpc_Condition list") (must: "grpc_Condition list")
      (must_not: "grpc_Condition list")

datatype http_Condition =
    http_FieldCondition http_FieldCondition
  | http_IsEmptyCondition http_IsEmptyCondition
  | http_HasIdCondition http_HasIdCondition
  | http_Filter_Condition http_Filter
and http_Filter =
    http_Filter (must: "http_Condition list option") (must_not: "http_Condition list option")
      (should: "http_Condition list option")

subsection \<open>Collection configuration\<close>

record grpc_HnswConfigDiff =
  m :: nat
  ef_construct :: nat
  full_scan_threshold :: nat

record http_HnswConfig =
  ef_construct :: nat
  m :: nat
  full_scan_threshold :: nat

record grpc_OptimizersConfigDiff =
  deleted_threshold :: real
  vacuum_min_vector_number :: nat
  default_segment_number :: nat
  max_segment_size :: nat
  memmap_threshold :: nat
  indexing_threshold :: nat
  payload_indexing_threshold :: nat
  flush_interval_sec :: nat
  max_optimization_threads :: nat

record http_OptimizersConfig =
  default_segment_number :: nat
  deleted_threshold :: real
  flush_interval_sec :: nat
  indexing_threshold :: nat
  max_optimization_threads :: nat
  max_segment_size :: nat
  memmap_threshold :: nat
  payload_indexing_threshold :: nat
  vacuum_min_vector_number :: nat

record grpc_WalConfigDiff =
  wal_capacity_mb :: nat
  wal_segments_ahead :: nat

record http_WalConfig =
  wal_capacity_mb :: nat
  wal_segments_ahead :: nat

record grpc_CollectionParams =
  vector_size :: nat
  distance :: grpc_Distance
  shard_number :: nat

record http_CollectionParams =
  distance :: http_Distance
  shard_number :: nat
  vector_size :: nat

record grpc_CollectionConfig =
  params :: grpc_CollectionParams
  hnsw_config :: grpc_HnswConfigDiff
  optimizer_config :: grpc_OptimizersConfigDiff
  wal_config :: grpc_WalConfigDiff

record http_CollectionConfig =
  hnsw_config :: http_HnswConfig
  optimizer_config :: http_OptimizersConfig
  params :: http_CollectionParams
  wal_config :: http_WalConfig

subsection \<open>Values and exceptions\<close>

text \<open>
  Python passes any object to any function: \<open>py_object\<close> collects the model values that
  reach a converter or are printed into an exception's message.
\<close>

datatype py_object =
    Obj_grpc_PointId grpc_PointId
  | Obj_grpc_Match grpc_Match
  | Obj_http_Match http_Match
  | Obj_http_Distance http_Distance
  | Obj_http_UpdateStatus http_UpdateStatus
  | Obj_http_CollectionStatus http_CollectionStatus
  | Obj_http_PayloadSchemaType http_PayloadSchemaType
  | Obj_http_UpdateResult http_UpdateResult

text \<open>
  \<open>ValueError msg v\<close> is \<^verbatim>\<open>ValueError(f"<msg>{v}")\<close>: the message and the
  value it names. \<open>AttributeError a\<close> is the failed lookup of the attribute \<open>a\<close>.
  \<open>ValidationError\<close> is what a pydantic constructor raises on a field value outside
  the field's type.
\<close>

datatype error =
    NotImplementedError
  | ValueError string py_object
  | AttributeError string
  | ValidationError

section \<open>Truthiness of grpc messages\<close>

text \<open>
  Modelled from the spec: the converters test a field with \<^verbatim>\<open>if model.f:\<close>, and the
  spec describes the test as a presence/non-default-value check. A number is true when
  it is not \<open>0\<close>, a string or a list when it is not empty, and a message when one of
  its fields differs from the default of its type.
\<close>

definition truthy_PointId :: "grpc_PointId \<Rightarrow> bool" where
  "truthy_PointId model = (num_of model \<noteq> 0 \<or> uuid_of model \<noteq> [])"

definition truthy_Match :: "grpc_Match \<Rightarrow> bool" where
  "truthy_Match model = (keyword_of model \<noteq> [] \<or> integer_of model \<noteq> 0 \<or> boolean_of model)"

definition truthy_GeoPoint :: "grpc_GeoPoint \<Rightarrow> bool" where
  "truthy_GeoPoint model = (grpc_GeoPoint.lon model \<noteq> 0 \<or> grpc_GeoPoint.lat model \<noteq> 0)"

definition truthy_GeoRadius :: "grpc_GeoRadius \<Rightarrow> bool" where
  "truthy_GeoRadius model =
     (truthy_GeoPoint (grpc_GeoRadius.center model) \<or> grpc_GeoRadius.radius model \<noteq> 0)"

definition truthy_GeoBoundingBox :: "grpc_GeoBoundingBox \<Rightarrow> bool" where
  "truthy_GeoBoundingBox model =
     (truthy_GeoPoint (grpc_GeoBoundingBox.top_left model)
      \<or> truthy_GeoPoint (grpc_GeoBoundingBox.bottom_right model))"

definition truthy_Range :: "grpc_Range \<Rightarrow> bool" where
  "truthy_Range model =
     (grpc_Range.lt model \<noteq> 0 \<or> grpc_Range.gt model \<noteq> 0
      \<or> grpc_Range.gte model \<noteq> 0 \<or> grpc_Range.lte model \<noteq> 0)"

definition truthy_ValuesCount :: "grpc_ValuesCount \<Rightarrow> bool" where
  "truthy_ValuesCount model =
     (grpc_ValuesCount.lt model \<noteq> 0 \<or> grpc_ValuesCount.gt model \<noteq> 0
      \<or> grpc_ValuesCount.gte model \<noteq> 0 \<or> grpc_ValuesCount.lte model \<noteq> 0)"

definition truthy_FieldCondition :: "grpc_FieldCondition \<Rightarrow> bool" where
  "truthy_FieldCondition model =
     (grpc_FieldCondition.key model \<noteq> []
      \<or> truthy_Match (grpc_FieldCondition.match model)
      \<or> truthy_Range (grpc_FieldCondition.range model)
      \<or> truthy_GeoBoundingBox (grpc_FieldCondition.geo_bounding_box model)
      \<or> truthy_GeoRadius (grpc_FieldCondition.geo_radius model)
      \<or> truthy_ValuesCount (grpc_FieldCondition.values_count model))"

definition truthy_IsEmptyCondition :: "grpc_IsEmptyCondition \<Rightarrow> bool" where
  "truthy_IsEmptyCondition model = (grpc_IsEmptyCondition.key model \<noteq> [])"

definition truthy_HasIdCondition :: "grpc_HasIdCondition \<Rightarrow> bool" where
  "truthy_HasIdCondition model = (grpc_HasIdCondition.has_id model \<noteq> [])"

definition truthy_Filter :: "grpc_Filter \<Rightarrow> bool" where
  "truthy_Filter model =
     (grpc_Filter.should model \<noteq> [] \<or> grpc_Filter.must model \<noteq> []
      \<or> grpc_Filter.must_not model \<noteq> [])"

text \<open>The fields of a \<^verbatim>\<open>grpc.Condition\<close>, read as attributes.\<close>

definition field_of :: "grpc_Condition \<Rightarrow> grpc_FieldCondition" where
  "field_of model =
     (case model of
        Condition_field v \<Rightarrow> v
      | _ \<Rightarrow>
          \<lparr>grpc_FieldCondition.key = [],
            grpc_FieldCondition.match = Match_unset,
            grpc_FieldCondition.range =
              \<lparr>grpc_Range.lt = 0, grpc_Range.gt = 0, grpc_Range.gte = 0, grpc_Range.lte = 0\<rparr>,
            grpc_FieldCondition.geo_bounding_box =
              \<lparr>grpc_GeoBoundingBox.top_left =
                 \<lparr>grpc_GeoPoint.lon = 0, grpc_GeoPoint.lat = 0\<rparr>,
               grpc_GeoBoundingBox.bottom_right =
                 \<lparr>grpc_GeoPoint.lon = 0, grpc_GeoPoint.lat = 0\<rparr>\<rparr>,
            grpc_FieldCondition.geo_radius =
              \<lparr>grpc_GeoRadius.center = \<lparr>grpc_GeoPoint.lon = 0, grpc_GeoPoint.lat = 0\<rparr>,
               grpc_GeoRadius.radius = 0\<rparr>,
            grpc_FieldCondition.values_count =
              \<lparr>grpc_ValuesCount.lt = 0, grpc_ValuesCount.gt = 0,
               grpc_ValuesCount.gte = 0, grpc_ValuesCount.lte = 0\<rparr>\<rparr>)"

definition filter_of :: "grpc_Condition \<Rightarrow> grpc_Filter" where
  "filter_of model = (case model of Condition_filter v \<Rightarrow> v | _ \<Rightarrow> grpc_Filter [] [] [])"

definition has_id_of :: "grpc_Condition \<Rightarrow> grpc_HasIdCondition" where
  "has_id_of model =
     (case model of Condition_has_id v \<Rightarrow> v | _ \<Rightarrow> \<lparr>grpc_HasIdCondition.has_id = []\<rparr>)"

definition is_empty_of :: "grpc_Condition \<Rightarrow> grpc_IsEmptyCondition" where
  "is_empty_of model =
     (case model of Condition_is_empty v \<Rightarrow> v | _ \<Rightarrow> \<lparr>grpc_IsEmptyCondition.key = []\<rparr>)"

section \<open>Python list comprehensions and pydantic constructors\<close>

text \<open>
  \<^verbatim>\<open>[f(x) for x in xs]\<close>: the elements are converted from left to right and the
  first exception ends the comprehension.
\<close>

fun comprehension :: "('a \<Rightarrow> error + 'b) \<Rightarrow> 'a list \<Rightarrow> error + 'b list" where
  "comprehension f [] = Inr []"
| "comprehension f (x # xs) =
     (case f x of
        Inl e \<Rightarrow> Inl e
      | Inr y \<Rightarrow> (case comprehension f xs of Inl e \<Rightarrow> Inl e | Inr ys \<Rightarrow> Inr (y # ys)))"

text \<open>
  Modelled from the spec: \<^verbatim>\<open>http.Filter(must=..., should=..., must_not=...)\<close> is a
  pydantic constructor. Its lists hold conditions, so an element \<^verbatim>\<open>None\<close> is outside
  the field's type and the constructor raises.
\<close>

definition http_Filter_init ::
  "http_Condition option list \<Rightarrow> http_Condition option list \<Rightarrow> http_Condition option list
     \<Rightarrow> error + http_Filter" where
  "http_Filter_init must' should' must_not' =
     (case (those must', those should', those must_not') of
        (Some a, Some b, Some c) \<Rightarrow> Inr (http_Filter (Some a) (Some c) (Some b))
      | _ \<Rightarrow> Inl ValidationError)"

section \<open>GrpcToRest\<close>

text \<open>
  One definition per method of the class, in the order of the file. Where the class
  body defines a name twice, Python binds the name to the later definition; the earlier
  one is kept here under the suffix \<open>_shadowed\<close> and is never called.
\<close>

definition GrpcToRest_convert_range :: "grpc_Range \<Rightarrow> http_Range" where
  "GrpcToRest_convert_range model =
     \<lparr>http_Range.gt = Some (grpc_Range.gt model),
      http_Range.gte = Some (grpc_Range.gte model),
      http_Range.lt = Some (grpc_Range.lt model),
      http_Range.lte = Some (grpc_Range.lte model)\<rparr>"

definition GrpcToRest_convert_geo_point :: "grpc_GeoPoint \<Rightarrow> http_GeoPoint" where
  "GrpcToRest_convert_geo_point model =
     \<lparr>http_GeoPoint.lat = grpc_GeoPoint.lat model,
      http_GeoPoint.lon = grpc_GeoPoint.lon model\<rparr>"

definition GrpcToRest_convert_geo_radius :: "grpc_GeoRadius \<Rightarrow> http_GeoRadius" where
  "GrpcToRest_convert_geo_radius model =
     \<lparr>http_GeoRadius.center = GrpcToRest_convert_geo_point (grpc_GeoRadius.center model),
      http_GeoRadius.radius = grpc_GeoRadius.radius model\<rparr>"

definition GrpcToRest_convert_hnsw_config :: "grpc_HnswConfigDiff \<Rightarrow> http_HnswConfig" where
  "GrpcToRest_convert_hnsw_config model =
     \<lparr>http_HnswConfig.ef_construct = grpc_HnswConfigDiff.ef_construct model,
      http_HnswConfig.m = grpc_HnswConfigDiff.m model,
      http_HnswConfig.full_scan_threshold = grpc_HnswConfigDiff.full_scan_threshold model\<rparr>"

definition GrpcToRest_convert_optimizer_config ::
  "grpc_OptimizersConfigDiff \<Rightarrow> http_OptimizersConfig" where
  "GrpcToRest_convert_optimizer_config model =
     \<lparr>http_OptimizersConfig.default_segment_number =
        grpc_OptimizersConfigDiff.default_segment_number model,
      http_OptimizersConfig.deleted_threshold =
        grpc_OptimizersConfigDiff.deleted_threshold model,
      http_OptimizersConfig.flush_interval_sec =
        grpc_OptimizersConfigDiff.flush_interval_sec model,
      http_OptimizersConfig.indexing_threshold =
        grpc_OptimizersConfigDiff.indexing_threshold model,
      http_OptimizersConfig.max_optimization_threads =
        grpc_OptimizersConfigDiff.max_optimization_threads model,
      http_OptimizersConfig.max_segment_size =
        grpc_OptimizersConfigDiff.max_segment_size model,
      http_OptimizersConfig.memmap_threshold =
        grpc_OptimizersConfigDiff.memmap_threshold model,
      http_OptimizersConfig.payload_indexing_threshold =
        grpc_OptimizersConfigDiff.payload_indexing_threshold model,
      http_OptimizersConfig.vacuum_min_vector_number =
        grpc_OptimizersConfigDiff.vacuum_min_vector_number model\<rparr>"

definition GrpcToRest_convert_distance :: "grpc_Distance \<Rightarrow> error + http_Distance" where
  "GrpcToRest_convert_distance model =
     (if model = Cosine then Inr COSINE
      else if model = Euclid then Inr EUCLID
      else if model = Dot then Inr DOT
      else Inl NotImplementedError)"

definition GrpcToRest_convert_update_status ::
  "grpc_UpdateStatus \<Rightarrow> error + http_UpdateStatus" where
  "GrpcToRest_convert_update_status model =
     (if model = Acknowledged then Inr ACKNOWLEDGED
      else if model = Completed then Inr COMPLETED
      else Inl NotImplementedError)"

definition GrpcToRest_convert_update_result ::
  "grpc_UpdateResult \<Rightarrow> error + http_UpdateResult" where
  "GrpcToRest_convert_update_result model =
     (case GrpcToRest_convert_update_status (grpc_UpdateResult.status model) of
        Inl e \<Rightarrow> Inl e
      | Inr status' \<Rightarrow>
          Inr \<lparr>http_UpdateResult.operation_id = grpc_UpdateResult.operation_id model,
               http_UpdateResult.status = status'\<rparr>)"

definition GrpcToRest_convert_point_id :: "grpc_PointId \<Rightarrow> error + http_ExtendedPointId" where
  "GrpcToRest_convert_point_id model =
     (if num_of model \<noteq> 0 then Inr (Id_int (int (num_of model)))
      else if uuid_of model \<noteq> [] then Inr (Id_str (uuid_of model))
      else Inl (ValueError ''invalid PointId model: '' (Obj_grpc_PointId model)))"

definition GrpcToRest_convert_has_id_condition ::
  "grpc_HasIdCondition \<Rightarrow> error + http_HasIdCondition" where
  "GrpcToRest_convert_has_id_condition model =
     (case comprehension GrpcToRest_convert_point_id (grpc_HasIdCondition.has_id model) of
        Inl e \<Rightarrow> Inl e
      | Inr ids \<Rightarrow> Inr \<lparr>http_HasIdCondition.has_id = ids\<rparr>)"

definition GrpcToRest_convert_is_empty_condition ::
  "grpc_IsEmptyCondition \<Rightarrow> http_IsEmptyCondition" where
  "GrpcToRest_convert_is_empty_condition model =
     \<lparr>http_IsEmptyCondition.is_empty =
        \<lparr>http_PayloadField.key = grpc_IsEmptyCondition.key model\<rparr>\<rparr>"

definition GrpcToRest_convert_values_count :: "grpc_ValuesCount \<Rightarrow> http_ValuesCount" where
  "GrpcToRest_convert_values_count model =
     \<lparr>http_ValuesCount.gt = Some (int (grpc_ValuesCount.gt model)),
      http_ValuesCount.gte = Some (int (grpc_ValuesCount.gte model)),
      http_ValuesCount.lt = Some (int (grpc_ValuesCount.lt model)),
      http_ValuesCount.lte = Some (int (grpc_ValuesCount.lte model))\<rparr>"

definition GrpcToRest_convert_geo_bounding_box ::
  "grpc_GeoBoundingBox \<Rightarrow> http_GeoBoundingBox" where
  "GrpcToRest_convert_geo_bounding_box model =
     \<lparr>http_GeoBoundingBox.bottom_right =
        GrpcToRest_convert_geo_point (grpc_GeoBoundingBox.bottom_right model),
      http_GeoBoundingBox.top_left =
        GrpcToRest_convert_geo_point (grpc_GeoBoundingBox.top_left model)\<rparr>"

definition GrpcToRest_convert_match :: "grpc_Match \<Rightarrow> error + http_Match" where
  "GrpcToRest_convert_match model =
     (if integer_of model \<noteq> 0 then Inr (MatchValue (Value_int (integer_of model)))
      else if boolean_of model then Inr (MatchValue (Value_bool (boolean_of model)))
      else if keyword_of model \<noteq> [] then Inr (MatchValue (Value_str (keyword_of model)))
      else Inl (ValueError ''invalid Match model: '' (Obj_grpc_Match model)))"

definition GrpcToRest_convert_field_condition ::
  "grpc_FieldCondition \<Rightarrow> error + http_FieldCondition" where
  "GrpcToRest_convert_field_condition model =
     (let geo_bounding_box' =
            (if truthy_GeoBoundingBox (grpc_FieldCondition.geo_bounding_box model)
             then Some (GrpcToRest_convert_geo_bounding_box
                          (grpc_FieldCondition.geo_bounding_box model))
             else None);
          geo_radius' =
            (if truthy_GeoRadius (grpc_FieldCondition.geo_radius model)
             then Some (GrpcToRest_convert_geo_radius (grpc_FieldCondition.geo_radius model))
             else None)
      in case (if truthy_Match (grpc_FieldCondition.match model)
               then map_sum id Some (GrpcToRest_convert_match (grpc_FieldCondition.match model))
               else Inr None) of
           Inl e \<Rightarrow> Inl e
         | Inr match' \<Rightarrow>
             (let range' =
                    (if truthy_Range (grpc_FieldCondition.range model)
                     then Some (GrpcToRest_convert_range (grpc_FieldCondition.range model))
                     else None);
                  values_count' =
                    (if truthy_ValuesCount (grpc_FieldCondition.values_count model)
                     then Some (GrpcToRest_convert_values_count
                                  (grpc_FieldCondition.values_count model))
                     else None)
              in Inr \<lparr>http_FieldCondition.key = grpc_FieldCondition.key model,
                      http_FieldCondition.geo_bounding_box = geo_bounding_box',
                      http_FieldCondition.geo_radius = geo_radius',
                      http_FieldCondition.match = match',
                      http_FieldCondition.range = range',
                      http_FieldCondition.values_count = values_count'\<rparr>))"

lemma comprehension_cong [fundef_cong]:
  assumes "xs = ys" and "\<And>x. x \<in> set ys \<Longrightarrow> f x = g x"
  shows "comprehension f xs = comprehension g ys"
proof -
  from assms(2) have "comprehension f ys = comprehension g ys"
    by (induction ys) (simp_all split: sum.split)
  with assms(1) show ?thesis by simp
qed

lemma size_le_size_list: "x \<in> set xs \<Longrightarrow> size x \<le> size_list size xs"
  by (induction xs) auto

text \<open>
  \<^verbatim>\<open>convert_condition\<close> has no statement after its four tests: when none of them
  holds the method ends and the call returns \<^verbatim>\<open>None\<close>.
\<close>

function GrpcToRest_convert_condition :: "grpc_Condition \<Rightarrow> error + http_Condition option"
  and GrpcToRest_convert_filter :: "grpc_Filter \<Rightarrow> error + http_Filter" where
  "GrpcToRest_convert_condition model =
     (if truthy_FieldCondition (field_of model) then
        (case GrpcToRest_convert_field_condition (field_of model) of
           Inl e \<Rightarrow> Inl e
         | Inr r \<Rightarrow> Inr (Some (http_FieldCondition r)))
      else if truthy_Filter (filter_of model) then
        (case GrpcToRest_convert_filter (filter_of model) of
           Inl e \<Rightarrow> Inl e
         | Inr r \<Rightarrow> Inr (Some (http_Filter_Condition r)))
      else if truthy_HasIdCondition (has_id_of model) then
        (case GrpcToRest_convert_has_id_condition (has_id_of model) of
           Inl e \<Rightarrow> Inl e
         | Inr r \<Rightarrow> Inr (Some (http_HasIdCondition r)))
      else if truthy_IsEmptyCondition (is_empty_of model) then
        Inr (Some (http_IsEmptyCondition
                     (GrpcToRest_convert_is_empty_condition (is_empty_of model))))
      else Inr None)"
| "GrpcToRest_convert_filter model =
     (case comprehension GrpcToRest_convert_condition (grpc_Filter.must model) of
        Inl e \<Rightarrow> Inl e
      | Inr must' \<Rightarrow>
     (case comprehension GrpcToRest_convert_condition (grpc_Filter.should model) of
        Inl e \<Rightarrow> Inl e
      | Inr should' \<Rightarrow>
     (case comprehension GrpcToRest_convert_condition (grpc_Filter.must_not model) of
        Inl e \<Rightarrow> Inl e
      | Inr must_not' \<Rightarrow> http_Filter_init must' should' must_not')))"
  by pat_completeness auto

termination
proof (relation "measure (\<lambda>x. case x of Inl c \<Rightarrow> size c | Inr f \<Rightarrow> size f)")
  fix model
  assume "truthy_Filter (filter_of model)"
  then show "(Inr (filter_of model), Inl model)
      \<in> measure (\<lambda>x. case x of Inl c \<Rightarrow> size c | Inr f \<Rightarrow> size f)"
    by (cases model) (simp_all add: filter_of_def truthy_Filter_def)
next
  fix model x
  assume "x \<in> set (grpc_Filter.must model)"
  then show "(Inl x, Inr model)
      \<in> measure (\<lambda>x. case x of Inl c \<Rightarrow> size c | Inr f \<Rightarrow> size f)"
    by (cases model) (auto simp: less_Suc_eq_le dest: size_le_size_list)
next
  fix model x
  assume "x \<in> set (grpc_Filter.should model)"
  then show "(Inl x, Inr model)
      \<in> measure (\<lambda>x. case x of Inl c \<Rightarrow> size c | Inr f \<Rightarrow> size f)"
    by (cases model) (auto simp: less_Suc_eq_le dest: size_le_size_list)
next
  fix model x
  assume "x \<in> set (grpc_Filter.must_not model)"
  then show "(Inl x, Inr model)
      \<in> measure (\<lambda>x. case x of Inl c \<Rightarrow> size c | Inr f \<Rightarrow> size f)"
    by (cases model) (auto simp: less_Suc_eq_le dest: size_le_size_list)
qed simp

text \<open>
  The class body calls \<^verbatim>\<open>cls.convert_wal_config\<close>,
  \<^verbatim>\<open>cls.convert_collection_status\<close>, \<^verbatim>\<open>cls.convert_optimizer_status\<close> and
  \<^verbatim>\<open>cls.convert_payload_schema\<close>, and defines none of them, nor a converter of
  \<^verbatim>\<open>grpc.PayloadSchemaType\<close>: looking such a name up on the class raises
  \<^verbatim>\<open>AttributeError\<close> before any argument is used.
\<close>

definition GrpcToRest_convert_wal_config :: "grpc_WalConfigDiff \<Rightarrow> error + http_WalConfig" where
  "GrpcToRest_convert_wal_config model = Inl (AttributeError ''convert_wal_config'')"

definition GrpcToRest_convert_collection_status ::
  "grpc_CollectionStatus \<Rightarrow> error + http_CollectionStatus" where
  "GrpcToRest_convert_collection_status model =
     Inl (AttributeError ''convert_collection_status'')"

definition GrpcToRest_convert_payload_schema_type ::
  "grpc_PayloadSchemaType \<Rightarrow> error + http_PayloadSchemaType" where
  "GrpcToRest_convert_payload_schema_type model =
     Inl (AttributeError ''convert_payload_schema_type'')"

text \<open>
  \<^verbatim>\<open>convert_collection_params\<close> and \<^verbatim>\<open>convert_collection_config\<close> are
  defined twice. The later definitions (lines 217 to 223) only raise
  \<^verbatim>\<open>NotImplementedError\<close>, and they are the ones the names are bound to.
\<close>

definition GrpcToRest_convert_collection_params ::
  "grpc_CollectionParams \<Rightarrow> error + http_CollectionParams" where
  "GrpcToRest_convert_collection_params model = Inl NotImplementedError"

definition GrpcToRest_convert_collection_config ::
  "grpc_CollectionConfig \<Rightarrow> error + http_CollectionConfig" where
  "GrpcToRest_convert_collection_config model = Inl NotImplementedError"

text \<open>
  The earlier definitions (lines 61 to 68 and 89 to 95). The one of
  \<^verbatim>\<open>convert_collection_params\<close> reads \<^verbatim>\<open>model.vector_sie\<close>, an attribute no
  \<^verbatim>\<open>grpc.CollectionParams\<close> has. The one of \<^verbatim>\<open>convert_collection_config\<close>
  evaluates its keyword arguments in the order written, each through the name as bound
  in the class.
\<close>

definition GrpcToRest_convert_collection_params_shadowed ::
  "grpc_CollectionParams \<Rightarrow> error + http_CollectionParams" where
  "GrpcToRest_convert_collection_params_shadowed model =
     (case GrpcToRest_convert_distance (grpc_CollectionParams.distance model) of
        Inl e \<Rightarrow> Inl e
      | Inr distance' \<Rightarrow> Inl (AttributeError ''vector_sie''))"

definition GrpcToRest_convert_collection_config_shadowed ::
  "grpc_CollectionConfig \<Rightarrow> error + http_CollectionConfig" where
  "GrpcToRest_convert_collection_config_shadowed model =
     (let hnsw_config' =
            GrpcToRest_convert_hnsw_config (grpc_CollectionConfig.hnsw_config model);
          optimizer_config' =
            GrpcToRest_convert_optimizer_config (grpc_CollectionConfig.optimizer_config model)
      in case GrpcToRest_convert_collection_params (grpc_CollectionConfig.params model) of
           Inl e \<Rightarrow> Inl e
         | Inr params' \<Rightarrow>
             (case GrpcToRest_convert_wal_config (grpc_CollectionConfig.wal_config model) of
                Inl e \<Rightarrow> Inl e
              | Inr wal_config' \<Rightarrow>
                  Inr \<lparr>http_CollectionConfig.hnsw_config = hnsw_config',
                       http_CollectionConfig.optimizer_config = optimizer_config',
                       http_CollectionConfig.params = params',
                       http_CollectionConfig.wal_config = wal_config'\<rparr>))"

section \<open>RestToGrpc\<close>

definition RestToGrpc_convert_payload_schema_type ::
  "http_PayloadSchemaType \<Rightarrow> error + grpc_PayloadSchemaType" where
  "RestToGrpc_convert_payload_schema_type model =
     (if model = KEYWORD then Inr Keyword
      else if model = INTEGER then Inr Integer
      else if model = FLOAT then Inr Float
      else if model = GEO then Inr Geo
      else Inl (ValueError ''invalid PayloadSchemaType model: ''
                  (Obj_http_PayloadSchemaType model)))"

definition RestToGrpc_convert_update_stats ::
  "http_UpdateStatus \<Rightarrow> error + grpc_UpdateStatus" where
  "RestToGrpc_convert_update_stats model =
     (if model = COMPLETED then Inr Completed
      else if model = ACKNOWLEDGED then Inr Acknowledged
      else Inl (ValueError ''invalid UpdateStatus model: '' (Obj_http_UpdateStatus model)))"

definition RestToGrpc_convert_update_result ::
  "http_UpdateResult \<Rightarrow> error + grpc_UpdateResult" where
  "RestToGrpc_convert_update_result model =
     (case RestToGrpc_convert_update_stats (http_UpdateResult.status model) of
        Inl e \<Rightarrow> Inl e
      | Inr status' \<Rightarrow>
          Inr \<lparr>grpc_UpdateResult.operation_id = http_UpdateResult.operation_id model,
               grpc_UpdateResult.status = status'\<rparr>)"

text \<open>
  \<^verbatim>\<open>convert_collection_status\<close> is defined twice in \<^verbatim>\<open>RestToGrpc\<close>. The
  earlier definition (lines 296 to 305) maps the three status values and is shadowed.
  The later one (lines 346 to 351), to which the name is bound, has the body of
  \<^verbatim>\<open>convert_update_result\<close>: it reads \<^verbatim>\<open>model.operation_id\<close> and
  \<^verbatim>\<open>model.status\<close> of whatever object it is given. A member of the enumeration
  \<^verbatim>\<open>http.CollectionStatus\<close> has neither attribute.
\<close>

definition RestToGrpc_convert_collection_status_shadowed ::
  "http_CollectionStatus \<Rightarrow> error + grpc_CollectionStatus" where
  "RestToGrpc_convert_collection_status_shadowed model =
     (if model = RED then Inr Red
      else if model = YELLOW then Inr Yellow
      else if model = GREEN then Inr Green
      else Inl (ValueError ''invalid CollectionStatus model: ''
                  (Obj_http_CollectionStatus model)))"

definition getattr_operation_id :: "py_object \<Rightarrow> error + nat" where
  "getattr_operation_id model =
     (case model of
        Obj_http_UpdateResult r \<Rightarrow> Inr (http_UpdateResult.operation_id r)
      | _ \<Rightarrow> Inl (AttributeError ''operation_id''))"

definition getattr_status :: "py_object \<Rightarrow> error + http_UpdateStatus" where
  "getattr_status model =
     (case model of
        Obj_http_UpdateResult r \<Rightarrow> Inr (http_UpdateResult.status r)
      | _ \<Rightarrow> Inl (AttributeError ''status''))"

definition RestToGrpc_convert_collection_status :: "py_object \<Rightarrow> error + grpc_UpdateResult" where
  "RestToGrpc_convert_collection_status model =
     (case getattr_operation_id model of
        Inl e \<Rightarrow> Inl e
      | Inr operation_id' \<Rightarrow>
          (case getattr_status model of
             Inl e \<Rightarrow> Inl e
           | Inr status' \<Rightarrow>
               (case RestToGrpc_convert_update_stats status' of
                  Inl e \<Rightarrow> Inl e
                | Inr status'' \<Rightarrow>
                    Inr \<lparr>grpc_UpdateResult.operation_id = operation_id',
                         grpc_UpdateResult.status = status''\<rparr>)))"

definition RestToGrpc_convert_distance :: "http_Distance \<Rightarrow> error + grpc_Distance" where
  "RestToGrpc_convert_distance model =
     (if model = DOT then Inr Dot
      else if model = COSINE then Inr Cosine
      else if model = EUCLID then Inr Euclid
      else Inl (ValueError ''invalid Distance model: '' (Obj_http_Distance model)))"

text \<open>
  Modelled from the spec: \<^verbatim>\<open>http.StrictInt\<close> and \<^verbatim>\<open>http.StrictStr\<close> are
  pydantic classes that are not part of the source files. They are subclasses of
  \<^verbatim>\<open>int\<close> and \<^verbatim>\<open>str\<close>; whether a given integer or string counts as an
  instance is left to the parameters \<open>strict_int\<close> and \<open>strict_str\<close>. Each function
  below is one \<^verbatim>\<open>isinstance\<close> test of \<^verbatim>\<open>model.value\<close> together with the value
  it lets through. Python's \<^verbatim>\<open>bool\<close> is a subclass of \<^verbatim>\<open>int\<close>, so the
  integer test is asked about \<^verbatim>\<open>True\<close> and \<^verbatim>\<open>False\<close> as the integers
  \<open>1\<close> and \<open>0\<close>.
\<close>

definition as_bool :: "http_ValueVariants \<Rightarrow> bool option" where
  "as_bool v = (case v of Value_bool b \<Rightarrow> Some b | _ \<Rightarrow> None)"

definition as_StrictInt :: "(int \<Rightarrow> bool) \<Rightarrow> http_ValueVariants \<Rightarrow> int option" where
  "as_StrictInt strict_int v =
     (case v of
        Value_bool b \<Rightarrow> (if strict_int (of_bool b) then Some (of_bool b) else None)
      | Value_int i \<Rightarrow> (if strict_int i then Some i else None)
      | Value_str s \<Rightarrow> None)"

definition as_StrictStr :: "(string \<Rightarrow> bool) \<Rightarrow> http_ValueVariants \<Rightarrow> string option" where
  "as_StrictStr strict_str v =
     (case v of Value_str s \<Rightarrow> (if strict_str s then Some s else None) | _ \<Rightarrow> None)"

text \<open>
  A \<^verbatim>\<open>MatchValue\<close> whose value passes none of the three tests falls through to
  the tests for \<^verbatim>\<open>MatchKeyword\<close> and \<^verbatim>\<open>MatchInteger\<close>, which it fails, and
  to the final \<^verbatim>\<open>raise\<close>.
\<close>

definition RestToGrpc_convert_match ::
  "(int \<Rightarrow> bool) \<Rightarrow> (string \<Rightarrow> bool) \<Rightarrow> http_Match \<Rightarrow> error + grpc_Match" where
  "RestToGrpc_convert_match strict_int strict_str model =
     (case model of
        MatchValue v \<Rightarrow>
          (case as_bool v of
             Some b \<Rightarrow> Inr (Match_boolean b)
           | None \<Rightarrow>
               (case as_StrictInt strict_int v of
                  Some i \<Rightarrow> Inr (Match_integer i)
                | None \<Rightarrow>
                    (case as_StrictStr strict_str v of
                       Some s \<Rightarrow> Inr (Match_keyword s)
                     | None \<Rightarrow>
                         Inl (ValueError ''invalid Match model: '' (Obj_http_Match model)))))
      | MatchKeyword keyword' \<Rightarrow> Inr (Match_keyword keyword')
      | MatchInteger integer' \<Rightarrow> Inr (Match_integer integer'))"

section \<open>Collection migration\<close>

subsection \<open>The client interface\<close>

datatype MigrationCollisionAction = RAISE | RECREATE | SKIP

text \<open>
  Modelled from the spec: \<^verbatim>\<open>qdrant_client.models\<close> and the client class
  \<^verbatim>\<open>QdrantBase\<close> are imported by \<^verbatim>\<open>migrate.py\<close> and are not part of the
  source files. The migration reads the fields below and passes their values on without
  looking into them; \<open>'a\<close> is the type of those values (vector parameters, index
  settings, payloads, vectors).
\<close>

record 'a models_Record =
  record_id :: http_ExtendedPointId
  payload :: 'a
  vector :: 'a

record 'a models_CollectionParams =
  vectors :: 'a
  shard_number :: nat
  replication_factor :: nat
  write_consistency_factor :: nat
  on_disk_payload :: bool

record 'a models_CollectionConfig =
  params :: "'a models_CollectionParams"
  hnsw_config :: 'a
  optimizer_config :: 'a
  wal_config :: 'a
  quantization_config :: "'a option"

record 'a models_PayloadIndexInfo =
  type' :: 'a
  params :: "'a option"

record 'a models_CollectionInfo =
  config :: "'a models_CollectionConfig"
  payload_schema :: "(string \<times> 'a models_PayloadIndexInfo) list"
  vectors_count :: nat

text \<open>
  \<open>Diff c\<close> is \<^verbatim>\<open>models.HnswConfigDiff(**to_dict(c))\<close> (and likewise for the
  optimizer and the write-ahead log): the diff model built from the fields of \<open>c\<close>.
\<close>

datatype 'a diff = Diff 'a

record 'a recreate_arguments =
  vectors_config :: 'a
  shard_number :: nat
  replication_factor :: nat
  write_consistency_factor :: nat
  on_disk_payload :: bool
  hnsw_config :: "'a diff"
  optimizers_config :: "'a diff"
  wal_config :: "'a diff"
  quantization_config :: "'a option"

text \<open>
  A client is the record of its methods. A method that reads takes the world; a method
  that writes returns the new world. The spec takes the clients as correct, so a call on
  a client raises nothing. \<^verbatim>\<open>scroll\<close> takes the collection, the offset and the limit
  (\<^verbatim>\<open>with_vectors=True\<close> always) and returns the page and the next offset.
\<close>

record ('w, 'a) QdrantBase =
  get_collections :: "'w \<Rightarrow> string list"
  get_collection :: "'w \<Rightarrow> string \<Rightarrow> 'a models_CollectionInfo"
  scroll :: "'w \<Rightarrow> string \<Rightarrow> http_ExtendedPointId option \<Rightarrow> int
               \<Rightarrow> 'a models_Record list \<times> http_ExtendedPointId option"
  recreate_collection :: "string \<Rightarrow> 'a recreate_arguments \<Rightarrow> 'w \<Rightarrow> 'w"
  create_payload_index :: "string \<Rightarrow> string \<Rightarrow> 'a \<Rightarrow> 'w \<Rightarrow> 'w"
  upload_records :: "string \<Rightarrow> 'a models_Record list \<Rightarrow> 'w \<Rightarrow> 'w"

text \<open>
  The log of a run: every call made, on which of the two clients, in order. A scroll is
  logged with its answer.
\<close>

datatype client = Source | Dest

datatype 'a call =
    GetCollections
  | GetCollection string
  | Scroll string "http_ExtendedPointId option" int "'a models_Record list"
      "http_ExtendedPointId option"
  | RecreateCollection string "'a recreate_arguments"
  | CreatePayloadIndex string string 'a
  | UploadRecords string "'a models_Record list"

record ('w, 'a) run =
  world :: 'w
  calls :: "(client \<times> 'a call) list"

definition logged :: "client \<times> 'a call \<Rightarrow> ('w, 'a) run \<Rightarrow> ('w, 'a) run" where
  "logged c st = st\<lparr>calls := calls st @ [c]\<rparr>"





datatype migrate_error =
    AssertionError_missing_collections "string list"
  | ValueError_collections_exist "string list"
  | AssertionError_vectors_count nat nat

text \<open>
  \<open>AssertionError_missing_collections xs\<close> is the failed assertion of
  \<^verbatim>\<open>select_source_collections\<close> with the set \<open>xs\<close> in its message,
  \<open>ValueError_collections_exist xs\<close> the \<^verbatim>\<open>ValueError\<close> of \<^verbatim>\<open>migrate\<close> with
  the list \<open>xs\<close> in its message, and \<open>AssertionError_vectors_count s d\<close> the failed
  assertion of \<^verbatim>\<open>migrate_collection\<close> with the two counts in its message.
\<close>

subsection \<open>Python sets\<close>

text \<open>
  A Python set is a list without duplicates, in the order in which the set is iterated.
  Python does not specify that order: it is the parameter \<open>iter\<close>, which rearranges the
  elements of a set.
\<close>

definition iteration_order :: "(string list \<Rightarrow> string list) \<Rightarrow> bool" where
  "iteration_order iter = (\<forall>xs. mset (iter xs) = mset xs)"

definition set_of :: "(string list \<Rightarrow> string list) \<Rightarrow> string list \<Rightarrow> string list" where
  "set_of iter xs = iter (remdups xs)"

definition set_minus ::
  "(string list \<Rightarrow> string list) \<Rightarrow> string list \<Rightarrow> string list \<Rightarrow> string list" where
  "set_minus iter xs ys = iter (filter (\<lambda>x. x \<notin> set ys) (remdups xs))"

definition set_and ::
  "(string list \<Rightarrow> string list) \<Rightarrow> string list \<Rightarrow> string list \<Rightarrow> string list" where
  "set_and iter xs ys = iter (filter (\<lambda>x. x \<in> set ys) (remdups xs))"

subsection \<open>The functions of migrate.py\<close>

text \<open>
  \<^verbatim>\<open>while next_offset:\<close> tests the offset for truth: \<^verbatim>\<open>None\<close>, the integer
  \<open>0\<close> and the empty string are false.
\<close>

definition truthy_offset :: "http_ExtendedPointId option \<Rightarrow> bool" where
  "truthy_offset next_offset =
     (case next_offset of
        None \<Rightarrow> False
      | Some (Id_int i) \<Rightarrow> i \<noteq> 0
      | Some (Id_str s) \<Rightarrow> s \<noteq> [])"

text \<open>
  \<^verbatim>\<open>if collection_names:\<close> holds of a list that is given and not empty. The first
  branch returns the list it was given, the second the set of the source's names.
\<close>

definition select_source_collections ::
  "(string list \<Rightarrow> string list) \<Rightarrow> ('w, 'a) QdrantBase \<Rightarrow> string list option \<Rightarrow> ('w, 'a) run
     \<Rightarrow> (migrate_error + string list) \<times> ('w, 'a) run" where
  "select_source_collections iter source_client collection_names st =
     (let source_collections = QdrantBase.get_collections source_client (world st);
          st' = logged (Source, GetCollections) st;
          source_collection_names = set_of iter source_collections
      in case collection_names of
           Some (n # ns) \<Rightarrow>
             (if list_all (\<lambda>collection_name. collection_name \<in> set source_collection_names) (n # ns)
              then (Inr (n # ns), st')
              else (Inl (AssertionError_missing_collections
                           (set_minus iter (n # ns) source_collection_names)), st'))
         | _ \<Rightarrow> (Inr source_collection_names, st'))"

definition find_collisions ::
  "(string list \<Rightarrow> string list) \<Rightarrow> ('w, 'a) QdrantBase \<Rightarrow> string list \<Rightarrow> ('w, 'a) run
     \<Rightarrow> string list \<times> ('w, 'a) run" where
  "find_collisions iter dest_client collection_names st =
     (let dest_collections = QdrantBase.get_collections dest_client (world st);
          st' = logged (Dest, GetCollections) st;
          dest_collection_names = set_of iter dest_collections;
          existing_dest_collections = set_and iter dest_collection_names collection_names
      in (existing_dest_collections, st'))"

text \<open>
  \<^verbatim>\<open>payload_schema.items()\<close> is the dictionary's entries in insertion order: an
  association list.
\<close>

fun recreate_payload_schema ::
  "('w, 'a) QdrantBase \<Rightarrow> string \<Rightarrow> (string \<times> 'a models_PayloadIndexInfo) list
     \<Rightarrow> ('w, 'a) run \<Rightarrow> ('w, 'a) run" where
  "recreate_payload_schema dest_client collection_name [] st = st"
| "recreate_payload_schema dest_client collection_name ((field_name, field_info) # items) st =
     (let field_schema =
            (case models_PayloadIndexInfo.params field_info of
               None \<Rightarrow> type' field_info
             | Some p \<Rightarrow> p);
          st' = logged (Dest, CreatePayloadIndex collection_name field_name field_schema)
                  (st\<lparr>world := QdrantBase.create_payload_index dest_client collection_name
                                   field_name field_schema (world st)\<rparr>)
      in recreate_payload_schema dest_client collection_name items st')"

definition recreate_collection ::
  "('w, 'a) QdrantBase \<Rightarrow> ('w, 'a) QdrantBase \<Rightarrow> string \<Rightarrow> ('w, 'a) run \<Rightarrow> ('w, 'a) run" where
  "recreate_collection source_client dest_client collection_name st =
     (let src_collection_info = QdrantBase.get_collection source_client (world st) collection_name;
          st1 = logged (Source, GetCollection collection_name) st;
          src_config = config src_collection_info;
          src_payload_schema = payload_schema src_collection_info;
          arguments =
            \<lparr>vectors_config = vectors (models_CollectionConfig.params src_config),
             recreate_arguments.shard_number =
               models_CollectionParams.shard_number (models_CollectionConfig.params src_config),
             recreate_arguments.replication_factor =
               models_CollectionParams.replication_factor (models_CollectionConfig.params src_config),
             recreate_arguments.write_consistency_factor =
               models_CollectionParams.write_consistency_factor
                 (models_CollectionConfig.params src_config),
             recreate_arguments.on_disk_payload =
               models_CollectionParams.on_disk_payload (models_CollectionConfig.params src_config),
             recreate_arguments.hnsw_config = Diff (models_CollectionConfig.hnsw_config src_config),
             optimizers_config = Diff (models_CollectionConfig.optimizer_config src_config),
             recreate_arguments.wal_config = Diff (models_CollectionConfig.wal_config src_config),
             recreate_arguments.quantization_config =
               models_CollectionConfig.quantization_config src_config\<rparr>;
          st2 = logged (Dest, RecreateCollection collection_name arguments)
                  (st1\<lparr>world := QdrantBase.recreate_collection dest_client collection_name
                                    arguments (world st1)\<rparr>)
      in recreate_payload_schema dest_client collection_name src_payload_schema st2)"

text \<open>
  One \<^verbatim>\<open>scroll\<close> on the source followed by one \<^verbatim>\<open>upload_records\<close> on the
  destination: the two statements that \<^verbatim>\<open>migrate_collection\<close> has once before
  its loop (without an offset) and once in the loop's body. The loop itself may run
  forever, which is the value \<open>None\<close>.
\<close>

definition scroll_and_upload ::
  "('w, 'a) QdrantBase \<Rightarrow> ('w, 'a) QdrantBase \<Rightarrow> string \<Rightarrow> int \<Rightarrow> http_ExtendedPointId option
     \<Rightarrow> ('w, 'a) run \<Rightarrow> http_ExtendedPointId option \<times> ('w, 'a) run" where
  "scroll_and_upload source_client dest_client collection_name batch_size offset st =
     (let answer = QdrantBase.scroll source_client (world st) collection_name offset batch_size;
          records = fst answer;
          next_offset = snd answer;
          st1 = logged (Source, Scroll collection_name offset batch_size records next_offset) st;
          st2 = logged (Dest, UploadRecords collection_name records)
                  (st1\<lparr>world := QdrantBase.upload_records dest_client collection_name records
                                    (world st1)\<rparr>)
      in (next_offset, st2))"

partial_function (option) scroll_while ::
  "('w, 'a) QdrantBase \<Rightarrow> ('w, 'a) QdrantBase \<Rightarrow> string \<Rightarrow> int \<Rightarrow> http_ExtendedPointId option
     \<Rightarrow> ('w, 'a) run \<Rightarrow> ('w, 'a) run option" where
  "scroll_while source_client dest_client collection_name batch_size next_offset st =
     (if truthy_offset next_offset then
        scroll_while source_client dest_client collection_name batch_size
          (fst (scroll_and_upload source_client dest_client collection_name batch_size next_offset st))
          (snd (scroll_and_upload source_client dest_client collection_name batch_size next_offset st))
      else Some st)"

definition migrate_collection ::
  "('w, 'a) QdrantBase \<Rightarrow> ('w, 'a) QdrantBase \<Rightarrow> string \<Rightarrow> int \<Rightarrow> ('w, 'a) run
     \<Rightarrow> ((migrate_error + unit) \<times> ('w, 'a) run) option" where
  "migrate_collection source_client dest_client collection_name batch_size st =
     (let first = scroll_and_upload source_client dest_client collection_name batch_size None st
      in case scroll_while source_client dest_client collection_name batch_size
                (fst first) (snd first) of
           None \<Rightarrow> None
         | Some st1 \<Rightarrow>
             (let source_client_vectors_count =
                    vectors_count (QdrantBase.get_collection source_client (world st1) collection_name);
                  st2 = logged (Source, GetCollection collection_name) st1;
                  dest_client_vectors_count =
                    vectors_count (QdrantBase.get_collection dest_client (world st2) collection_name);
                  st3 = logged (Dest, GetCollection collection_name) st2
              in if source_client_vectors_count = dest_client_vectors_count
                 then Some (Inr (), st3)
                 else Some (Inl (AssertionError_vectors_count source_client_vectors_count
                                   dest_client_vectors_count), st3)))"

text \<open>
  The body of the two \<^verbatim>\<open>for\<close> loops of \<^verbatim>\<open>migrate\<close>: recreate, then copy,
  one collection after the other; the first exception ends the run.
\<close>

fun migrate_each ::
  "('w, 'a) QdrantBase \<Rightarrow> ('w, 'a) QdrantBase \<Rightarrow> int \<Rightarrow> string list \<Rightarrow> ('w, 'a) run
     \<Rightarrow> ((migrate_error + unit) \<times> ('w, 'a) run) option" where
  "migrate_each source_client dest_client batch_size [] st = Some (Inr (), st)"
| "migrate_each source_client dest_client batch_size (collection_name # names) st =
     (case migrate_collection source_client dest_client collection_name batch_size
             (recreate_collection source_client dest_client collection_name st) of
        None \<Rightarrow> None
      | Some (Inl e, st') \<Rightarrow> Some (Inl e, st')
      | Some (Inr u, st') \<Rightarrow> migrate_each source_client dest_client batch_size names st')"

definition migrate ::
  "(string list \<Rightarrow> string list) \<Rightarrow> ('w, 'a) QdrantBase \<Rightarrow> ('w, 'a) QdrantBase
     \<Rightarrow> string list option \<Rightarrow> MigrationCollisionAction \<Rightarrow> int \<Rightarrow> ('w, 'a) run
     \<Rightarrow> ((migrate_error + unit) \<times> ('w, 'a) run) option" where
  "migrate iter source_client dest_client collection_names on_collision_action batch_size st =
     (case select_source_collections iter source_client collection_names st of
        (Inl e, st1) \<Rightarrow> Some (Inl e, st1)
      | (Inr collection_names', st1) \<Rightarrow>
          (let found = find_collisions iter dest_client collection_names' st1;
               collisions = fst found;
               st2 = snd found;
               absent_dest_collections = set_minus iter collection_names' collisions
           in if collisions \<noteq> [] \<and> on_collision_action = RAISE then
                Some (Inl (ValueError_collections_exist collisions), st2)
              else
                (let collisions' =
                       (if collisions \<noteq> [] \<and> on_collision_action = SKIP then [] else collisions)
                 in case migrate_each source_client dest_client batch_size
                           absent_dest_collections st2 of
                      None \<Rightarrow> None
                    | Some (Inl e, st3) \<Rightarrow> Some (Inl e, st3)
                    | Some (Inr u, st3) \<Rightarrow>
                        migrate_each source_client dest_client batch_size collisions' st3)))"

subsection \<open>A server in memory\<close>

text \<open>
  Modelled from the spec: a client of a server that keeps its collections in memory,
  with the operations of the spec's client interface. \<^verbatim>\<open>scroll\<close> answers with the
  points from the one whose id is the offset on (from the first one without an offset),
  at most \<open>limit\<close> of them, and with the id of the point after the page as the next
  offset, \<^verbatim>\<open>None\<close> when the page is the last one. \<^verbatim>\<open>upload_records\<close> replaces
  the points that have an uploaded id and appends the uploaded ones.
  \<^verbatim>\<open>recreate_collection\<close> leaves an empty collection with the given settings.
  \<open>view\<close> and \<open>change\<close> say where in the world the server is.
\<close>

record 'a memory_collection =
  stored_config :: "'a models_CollectionConfig"
  stored_schema :: "(string \<times> 'a models_PayloadIndexInfo) list"
  points :: "'a models_Record list"

record 'a memory_server =
  listed :: "string list"
  collection :: "string \<Rightarrow> 'a memory_collection"

definition memory_scroll ::
  "'a models_Record list \<Rightarrow> http_ExtendedPointId option \<Rightarrow> int
     \<Rightarrow> 'a models_Record list \<times> http_ExtendedPointId option" where
  "memory_scroll pts offset limit =
     (let from_offset =
            (case offset of None \<Rightarrow> pts | Some i \<Rightarrow> dropWhile (\<lambda>r. record_id r \<noteq> i) pts)
      in (take (nat limit) from_offset,
          case drop (nat limit) from_offset of [] \<Rightarrow> None | r # rs \<Rightarrow> Some (record_id r)))"

definition memory_upload ::
  "'a models_Record list \<Rightarrow> 'a models_Record list \<Rightarrow> 'a models_Record list" where
  "memory_upload pts records =
     filter (\<lambda>p. record_id p \<notin> set (map record_id records)) pts @ records"

definition memory_recreate :: "'a recreate_arguments \<Rightarrow> 'a memory_collection" where
  "memory_recreate arguments =
     \<lparr>stored_config =
        \<lparr>models_CollectionConfig.params =
           \<lparr>vectors = vectors_config arguments,
            models_CollectionParams.shard_number = recreate_arguments.shard_number arguments,
            models_CollectionParams.replication_factor =
              recreate_arguments.replication_factor arguments,
            models_CollectionParams.write_consistency_factor =
              recreate_arguments.write_consistency_factor arguments,
            models_CollectionParams.on_disk_payload =
              recreate_arguments.on_disk_payload arguments\<rparr>,
         models_CollectionConfig.hnsw_config =
           (case recreate_arguments.hnsw_config arguments of Diff c \<Rightarrow> c),
         models_CollectionConfig.optimizer_config =
           (case optimizers_config arguments of Diff c \<Rightarrow> c),
         models_CollectionConfig.wal_config =
           (case recreate_arguments.wal_config arguments of Diff c \<Rightarrow> c),
         models_CollectionConfig.quantization_config =
           recreate_arguments.quantization_config arguments\<rparr>,
      stored_schema = [],
      points = []\<rparr>"

definition memory_client ::
  "('w \<Rightarrow> 'a memory_server) \<Rightarrow> (('a memory_server \<Rightarrow> 'a memory_server) \<Rightarrow> 'w \<Rightarrow> 'w)
     \<Rightarrow> ('w, 'a) QdrantBase" where
  "memory_client view change =
     \<lparr>QdrantBase.get_collections = (\<lambda>w. listed (view w)),
      QdrantBase.get_collection =
        (\<lambda>w name.
           \<lparr>config = stored_config (collection (view w) name),
            payload_schema = stored_schema (collection (view w) name),
            vectors_count = length (points (collection (view w) name))\<rparr>),
      QdrantBase.scroll =
        (\<lambda>w name offset limit. memory_scroll (points (collection (view w) name)) offset limit),
      QdrantBase.recreate_collection =
        (\<lambda>name arguments.
           change (\<lambda>s. s\<lparr>listed := name # removeAll name (listed s),
                          collection := (collection s)(name := memory_recreate arguments)\<rparr>)),
      QdrantBase.create_payload_index =
        (\<lambda>name field_name field_schema.
           change (\<lambda>s. s\<lparr>collection := (collection s)
                     (name := (collection s name)
                        \<lparr>stored_schema := stored_schema (collection s name)
                           @ [(field_name, \<lparr>type' = field_schema, params = None\<rparr>)]\<rparr>)\<rparr>)),
      QdrantBase.upload_records =
        (\<lambda>name records.
           change (\<lambda>s. s\<lparr>collection := (collection s)
                     (name := (collection s name)
                        \<lparr>points := memory_upload (points (collection s name)) records\<rparr>)\<rparr>))\<rparr>"

text \<open>
  The world of two servers, the source first. \<open>lagging\<close> is a client whose server has
  not yet applied the uploads when it is asked for a collection's point count: it
  answers \<open>0\<close>.
\<close>

definition memory_source :: "('a memory_server \<times> 'a memory_server, 'a) QdrantBase" where
  "memory_source = memory_client fst apfst"

definition memory_dest :: "('a memory_server \<times> 'a memory_server, 'a) QdrantBase" where
  "memory_dest = memory_client snd apsnd"

definition lagging :: "('w, 'a) QdrantBase \<Rightarrow> ('w, 'a) QdrantBase" where
  "lagging c =
     c\<lparr>QdrantBase.get_collection :=
         (\<lambda>w name. (QdrantBase.get_collection c w name)\<lparr>vectors_count := 0\<rparr>)\<rparr>"

subsection \<open>Reading the log\<close>


definition copy_call :: "string \<Rightarrow> client \<times> 'a call \<Rightarrow> bool" where
  "copy_call name c =
     (case c of
        (Source, Scroll n offset limit records next_offset) \<Rightarrow> n = name
      | (Dest, UploadRecords n records) \<Rightarrow> n = name
      | _ \<Rightarrow> False)"

subsection \<open>Example worlds\<close>

text \<open>
  Servers in memory whose settings and payloads are numbers: \<open>server cs\<close> lists the
  collections named in \<open>cs\<close>, each with the points given, and \<open>point i\<close> is a point
  with the integer id \<open>i\<close>.
\<close>

definition some_config :: "nat models_CollectionConfig" where
  "some_config =
     \<lparr>models_CollectionConfig.params =
        \<lparr>vectors = 4, models_CollectionParams.shard_number = 1,
         models_CollectionParams.replication_factor = 1,
         models_CollectionParams.write_consistency_factor = 1,
         models_CollectionParams.on_disk_payload = False\<rparr>,
      models_CollectionConfig.hnsw_config = 16,
      models_CollectionConfig.optimizer_config = 0,
      models_CollectionConfig.wal_config = 32,
      models_CollectionConfig.quantization_config = None\<rparr>"

definition point :: "int \<Rightarrow> nat models_Record" where
  "point i = \<lparr>record_id = Id_int i, payload = 0, vector = 0\<rparr>"

definition server :: "(string \<times> nat models_Record list) list \<Rightarrow> nat memory_server" where
  "server cs =
     \<lparr>listed = map fst cs,
      collection =
        (\<lambda>name. \<lparr>stored_config = some_config, stored_schema = [],
                  points = (case map_of cs name of None \<Rightarrow> [] | Some pts \<Rightarrow> pts)\<rparr>)\<rparr>"

section \<open>Properties of the converters\<close>

lemmas truthy_defs =
  truthy_FieldCondition_def truthy_Filter_def truthy_HasIdCondition_def
  truthy_IsEmptyCondition_def truthy_Match_def truthy_Range_def truthy_GeoBoundingBox_def
  truthy_GeoRadius_def truthy_GeoPoint_def truthy_ValuesCount_def

lemmas oneof_defs =
  field_of_def filter_of_def has_id_of_def is_empty_of_def
  keyword_of_def integer_of_def boolean_of_def num_of_def uuid_of_def

subsection \<open>Enumerations\<close>

text \<open>
  Distance and UpdateStatus have a converter in each direction, and the two are inverse
  to each other on the members other than the zero member, which
  \<^verbatim>\<open>GrpcToRest\<close> refuses.
\<close>

lemma distance_grpc_rest_grpc:
  "map (\<lambda>g. case GrpcToRest_convert_distance g of
               Inl e \<Rightarrow> Inl e | Inr r \<Rightarrow> RestToGrpc_convert_distance r)
     [Cosine, Euclid, Dot] = [Inr Cosine, Inr Euclid, Inr Dot]
   \<and> GrpcToRest_convert_distance UnknownDistance = Inl NotImplementedError"
  by (simp add: GrpcToRest_convert_distance_def RestToGrpc_convert_distance_def)

lemma distance_rest_grpc_rest:
  "\<exists>g. RestToGrpc_convert_distance model = Inr g \<and> GrpcToRest_convert_distance g = Inr model"
  by (cases model) (auto simp: GrpcToRest_convert_distance_def RestToGrpc_convert_distance_def)

lemma update_status_grpc_rest_grpc:
  "map (\<lambda>g. case GrpcToRest_convert_update_status g of
               Inl e \<Rightarrow> Inl e | Inr r \<Rightarrow> RestToGrpc_convert_update_stats r)
     [Acknowledged, Completed] = [Inr Acknowledged, Inr Completed]
   \<and> GrpcToRest_convert_update_status UnknownUpdateStatus = Inl NotImplementedError"
  by (simp add: GrpcToRest_convert_update_status_def RestToGrpc_convert_update_stats_def)

lemma update_status_rest_grpc_rest:
  "\<exists>g. RestToGrpc_convert_update_stats model = Inr g
       \<and> GrpcToRest_convert_update_status g = Inr model"
  by (cases model)
    (auto simp: GrpcToRest_convert_update_status_def RestToGrpc_convert_update_stats_def)

text \<open>
  Claim C2 (every member of Distance, UpdateStatus, CollectionStatus and
  PayloadSchemaType survives the conversion grpc to rest to grpc, and rest to grpc to
  rest). The code does not do this for CollectionStatus and PayloadSchemaType.
  \<^verbatim>\<open>RestToGrpc.convert_collection_status\<close>, given the member
  \<^verbatim>\<open>http.CollectionStatus.GREEN\<close>, raises \<^verbatim>\<open>AttributeError\<close>: the name is
  bound to the second definition, which reads \<^verbatim>\<open>model.operation_id\<close>. The
  shadowed first definition would have answered \<^verbatim>\<open>Green\<close>. In the other
  direction \<^verbatim>\<open>GrpcToRest\<close> has no converter of a collection status or of a payload
  schema type at all, so the value that \<^verbatim>\<open>RestToGrpc\<close> makes of
  \<^verbatim>\<open>KEYWORD\<close> cannot be taken back.
\<close>

theorem collection_status_round_trip_raises:
  "RestToGrpc_convert_collection_status (Obj_http_CollectionStatus GREEN)
     = Inl (AttributeError ''operation_id'')
   \<and> RestToGrpc_convert_collection_status_shadowed GREEN = Inr Green
   \<and> GrpcToRest_convert_collection_status Green
        = Inl (AttributeError ''convert_collection_status'')
   \<and> RestToGrpc_convert_payload_schema_type KEYWORD = Inr Keyword
   \<and> GrpcToRest_convert_payload_schema_type Keyword
        = Inl (AttributeError ''convert_payload_schema_type'')"
  by (simp add: RestToGrpc_convert_collection_status_def getattr_operation_id_def
      RestToGrpc_convert_collection_status_shadowed_def GrpcToRest_convert_collection_status_def
      RestToGrpc_convert_payload_schema_type_def GrpcToRest_convert_payload_schema_type_def)

subsection \<open>Messages with a group of alternatives\<close>

text \<open>
  Claim C3 (a Condition, Match or PointId with no alternative set makes the converter
  raise an error that names the value; the converter never returns silently). The code
  does this for PointId and Match and not for Condition:
  \<^verbatim>\<open>GrpcToRest.convert_condition\<close>, given the condition with no field set, raises
  nothing and returns \<^verbatim>\<open>None\<close>.
\<close>

theorem convert_condition_of_unset_returns_None:
  "GrpcToRest_convert_condition Condition_unset = Inr None
   \<and> GrpcToRest_convert_point_id PointId_unset
        = Inl (ValueError ''invalid PointId model: '' (Obj_grpc_PointId PointId_unset))
   \<and> GrpcToRest_convert_match Match_unset
        = Inl (ValueError ''invalid Match model: '' (Obj_grpc_Match Match_unset))"
  by (simp add: oneof_defs truthy_defs GrpcToRest_convert_point_id_def
      GrpcToRest_convert_match_def)

text \<open>
  Claim C9 (the grpc-to-rest converters find the alternative by truth value, so an
  alternative that is set to a false value counts as not set): a PointId with
  \<^verbatim>\<open>num\<close> set to \<open>0\<close> raises the invalid-PointId error, and a Match with
  \<^verbatim>\<open>integer\<close> set to \<open>0\<close>, \<^verbatim>\<open>boolean\<close> set to \<^verbatim>\<open>False\<close> or
  \<^verbatim>\<open>keyword\<close> set to the empty string raises the invalid-Match error.
\<close>

theorem falsy_alternatives_are_invalid:
  "GrpcToRest_convert_point_id (PointId_num 0)
     = Inl (ValueError ''invalid PointId model: '' (Obj_grpc_PointId (PointId_num 0)))
   \<and> GrpcToRest_convert_match (Match_integer 0)
        = Inl (ValueError ''invalid Match model: '' (Obj_grpc_Match (Match_integer 0)))
   \<and> GrpcToRest_convert_match (Match_boolean False)
        = Inl (ValueError ''invalid Match model: '' (Obj_grpc_Match (Match_boolean False)))
   \<and> GrpcToRest_convert_match (Match_keyword [])
        = Inl (ValueError ''invalid Match model: '' (Obj_grpc_Match (Match_keyword [])))"
  by (simp add: GrpcToRest_convert_point_id_def GrpcToRest_convert_match_def oneof_defs)

text \<open>
  For comparison, what the two converters make of any value of each alternative: the
  values other than the false ones are converted.
\<close>

lemma convert_point_id_num:
  "GrpcToRest_convert_point_id (PointId_num n)
     = (if n = 0 then Inl (ValueError ''invalid PointId model: '' (Obj_grpc_PointId (PointId_num n)))
        else Inr (Id_int (int n)))"
  by (simp add: GrpcToRest_convert_point_id_def oneof_defs)

lemma convert_match_integer:
  "GrpcToRest_convert_match (Match_integer i)
     = (if i = 0 then Inl (ValueError ''invalid Match model: '' (Obj_grpc_Match (Match_integer i)))
        else Inr (MatchValue (Value_int i)))"
  by (simp add: GrpcToRest_convert_match_def oneof_defs)

lemma convert_match_boolean:
  "GrpcToRest_convert_match (Match_boolean b)
     = (if b then Inr (MatchValue (Value_bool True))
        else Inl (ValueError ''invalid Match model: '' (Obj_grpc_Match (Match_boolean b))))"
  by (simp add: GrpcToRest_convert_match_def oneof_defs)

lemma convert_match_keyword:
  "GrpcToRest_convert_match (Match_keyword s)
     = (if s = [] then Inl (ValueError ''invalid Match model: '' (Obj_grpc_Match (Match_keyword s)))
        else Inr (MatchValue (Value_str s)))"
  by (simp add: GrpcToRest_convert_match_def oneof_defs)

text \<open>
  Claim C10 (\<^verbatim>\<open>RestToGrpc.convert_match\<close> tests for \<^verbatim>\<open>bool\<close> before it tests
  for an integer): a \<^verbatim>\<open>MatchValue\<close> whose value is a boolean becomes the Match with
  its \<^verbatim>\<open>boolean\<close> field set to that value, never one with the \<^verbatim>\<open>integer\<close>
  field set, whatever the later tests would say.
\<close>

theorem convert_match_boolean_before_integer:
  "RestToGrpc_convert_match strict_int strict_str (MatchValue (Value_bool b))
     = Inr (Match_boolean b)
   \<and> (\<forall>i. RestToGrpc_convert_match strict_int strict_str (MatchValue (Value_bool b))
          \<noteq> Inr (Match_integer i))"
  by (simp add: RestToGrpc_convert_match_def as_bool_def)

text \<open>The order matters: reached first, the integer test can let a boolean through.\<close>

lemma integer_test_accepts_boolean:
  "as_StrictInt (\<lambda>i. True) (Value_bool b) = Some (of_bool b)"
  by (simp add: as_StrictInt_def)

subsection \<open>Collection configuration\<close>

text \<open>
  Claim C4 (the grpc-to-rest conversion of a CollectionConfig succeeds on every value
  and keeps every field of every part). The code does not do this:
  \<^verbatim>\<open>GrpcToRest.convert_collection_config\<close> raises \<^verbatim>\<open>NotImplementedError\<close> on
  every value, because the name is bound to the second definition. The shadowed first
  definition would raise it as well, through \<^verbatim>\<open>cls.convert_collection_params\<close>.
\<close>

theorem convert_collection_config_raises:
  "GrpcToRest_convert_collection_config model = Inl NotImplementedError
   \<and> GrpcToRest_convert_collection_config_shadowed model = Inl NotImplementedError"
  by (simp add: GrpcToRest_convert_collection_config_def
      GrpcToRest_convert_collection_config_shadowed_def GrpcToRest_convert_collection_params_def)

text \<open>The parts that have a converter of their own keep every field.\<close>

lemma convert_hnsw_config_fields:
  "http_HnswConfig.m (GrpcToRest_convert_hnsw_config model) = grpc_HnswConfigDiff.m model
   \<and> http_HnswConfig.ef_construct (GrpcToRest_convert_hnsw_config model)
        = grpc_HnswConfigDiff.ef_construct model
   \<and> http_HnswConfig.full_scan_threshold (GrpcToRest_convert_hnsw_config model)
        = grpc_HnswConfigDiff.full_scan_threshold model"
  by (simp add: GrpcToRest_convert_hnsw_config_def)

section \<open>Properties of the migration\<close>


lemmas example_defs = memory_source_def memory_dest_def memory_client_def memory_scroll_def
  memory_upload_def memory_recreate_def server_def point_def some_config_def

subsection \<open>Python sets\<close>

lemma iteration_order_set: "iteration_order iter \<Longrightarrow> set (iter xs) = set xs"
  unfolding iteration_order_def by (metis mset_eq_setD)

lemma iteration_order_distinct: "iteration_order iter \<Longrightarrow> distinct (iter xs) = distinct xs"
  unfolding iteration_order_def by (metis mset_eq_imp_distinct_iff)

lemma set_set_of: "iteration_order iter \<Longrightarrow> set (set_of iter xs) = set xs"
  by (simp add: set_of_def iteration_order_set)

lemma set_set_minus: "iteration_order iter \<Longrightarrow> set (set_minus iter xs ys) = set xs - set ys"
  by (auto simp: set_minus_def iteration_order_set)


lemma distinct_set_of: "iteration_order iter \<Longrightarrow> distinct (set_of iter xs)"
  by (simp add: set_of_def iteration_order_distinct)

lemma distinct_set_minus: "iteration_order iter \<Longrightarrow> distinct (set_minus iter xs ys)"
  by (simp add: set_minus_def iteration_order_distinct)

lemma distinct_set_and: "iteration_order iter \<Longrightarrow> distinct (set_and iter xs ys)"
  by (simp add: set_and_def iteration_order_distinct)

lemma iteration_order_id: "iteration_order (\<lambda>xs. xs)"
  by (simp add: iteration_order_def)

subsection \<open>Selecting the collections\<close>

text \<open>
  Claim C7. Let \<open>S\<close> be the names of the source's collections. Given a list \<open>R\<close> that
  is not empty, \<^verbatim>\<open>select_source_collections\<close> returns \<open>R\<close> itself when every
  name of \<open>R\<close> is in \<open>S\<close>, and otherwise fails with the error whose message holds
  exactly the names of \<open>R\<close> that are not in \<open>S\<close>. Given \<^verbatim>\<open>None\<close> it returns the
  names in \<open>S\<close>, each once. In every case it makes one call, which reads.
\<close>

theorem select_source_collections_result:
  assumes "iteration_order iter"
  shows "(R \<noteq> [] \<and> set R \<subseteq> set (QdrantBase.get_collections source_client (world st))
            \<longrightarrow> fst (select_source_collections iter source_client (Some R) st) = Inr R)
     \<and> (R \<noteq> [] \<and> \<not> set R \<subseteq> set (QdrantBase.get_collections source_client (world st))
            \<longrightarrow> (\<exists>missing. fst (select_source_collections iter source_client (Some R) st)
                     = Inl (AssertionError_missing_collections missing)
                   \<and> set missing = set R - set (QdrantBase.get_collections source_client (world st))
                   \<and> distinct missing))
     \<and> (\<exists>every. fst (select_source_collections iter source_client None st) = Inr every
            \<and> set every = set (QdrantBase.get_collections source_client (world st))
            \<and> distinct every)
     \<and> snd (select_source_collections iter source_client (Some R) st) = logged (Source, GetCollections) st
     \<and> snd (select_source_collections iter source_client None st) = logged (Source, GetCollections) st"
  using assms
  by (cases R)
    (auto simp: select_source_collections_def Let_def list_all_iff set_set_of set_set_minus
      distinct_set_of distinct_set_minus)

text \<open>
  The examples of the spec: the source has the collections a, b and c. Asked for a and
  c the function returns a and c; asked for a and z it fails and names z.
\<close>

theorem select_source_collections_result_witness:
  "fst (select_source_collections (\<lambda>xs. xs) memory_source (Some [''a'', ''c''])
          \<lparr>world = (server [(''a'', []), (''b'', []), (''c'', [])], server []), calls = []\<rparr>)
     = Inr [''a'', ''c'']
   \<and> (\<exists>missing. fst (select_source_collections (\<lambda>xs. xs) memory_source (Some [''a'', ''z''])
          \<lparr>world = (server [(''a'', []), (''b'', []), (''c'', [])], server []), calls = []\<rparr>)
         = Inl (AssertionError_missing_collections missing) \<and> set missing = {''z''})
   \<and> (\<exists>every. fst (select_source_collections (\<lambda>xs. xs) memory_source None
          \<lparr>world = (server [(''a'', []), (''b'', []), (''c'', [])], server []), calls = []\<rparr>)
         = Inr every \<and> set every = {''a'', ''b'', ''c''})"
proof -
  let ?st = "\<lparr>world = (server [(''a'', []), (''b'', []), (''c'', [])], server []), calls = []\<rparr>
     :: (nat memory_server \<times> nat memory_server, nat) run"
  have S: "QdrantBase.get_collections memory_source (world ?st) = [''a'', ''b'', ''c'']"
    by (simp add: memory_source_def memory_client_def server_def)
  note ac = select_source_collections_result
    [OF iteration_order_id, of "[''a'', ''c'']" memory_source ?st, unfolded S]
  note az = select_source_collections_result
    [OF iteration_order_id, of "[''a'', ''z'']" memory_source ?st, unfolded S]
  have 1: "fst (select_source_collections (\<lambda>xs. xs) memory_source (Some [''a'', ''c'']) ?st)
      = Inr [''a'', ''c'']"
    using ac by simp
  have "set [''a'', ''z''] - set [''a'', ''b'', ''c''] = {''z''}"
    by auto
  with az have 2: "\<exists>missing.
      fst (select_source_collections (\<lambda>xs. xs) memory_source (Some [''a'', ''z'']) ?st)
        = Inl (AssertionError_missing_collections missing) \<and> set missing = {''z''}"
    by auto
  have "set [''a'', ''b'', ''c''] = {''a'', ''b'', ''c''}"
    by simp
  with ac have 3: "\<exists>every.
      fst (select_source_collections (\<lambda>xs. xs) memory_source None ?st) = Inr every
        \<and> set every = {''a'', ''b'', ''c''}"
    by metis
  from 1 2 3 show ?thesis by blast
qed

subsection \<open>The collision policy Raise\<close>



text \<open>
  A requested name that the source does not have ends the run in the selection step,
  under every policy, also with no write.
\<close>

lemma migrate_missing_collection_aborts_before_any_write:
  assumes "select_source_collections iter source_client requested st = (Inl e, st1)"
  shows "migrate iter source_client dest_client requested on_collision_action batch_size st
           = Some (Inl e, st1)
     \<and> world st1 = world st \<and> calls st1 = calls st @ [(Source, GetCollections)]"
proof -
  have "st1 = logged (Source, GetCollections) st"
    using assms
    by (auto simp: select_source_collections_def Let_def split: option.splits list.splits if_splits)
  with assms show ?thesis
    by (simp add: migrate_def logged_def)
qed

subsection \<open>Copying one collection\<close>

lemma calls_scroll_and_upload:
  "calls (snd (scroll_and_upload source_client dest_client name batch_size offset st))
     = calls st @
       [(Source, Scroll name offset batch_size
           (fst (QdrantBase.scroll source_client (world st) name offset batch_size))
           (snd (QdrantBase.scroll source_client (world st) name offset batch_size))),
        (Dest, UploadRecords name
           (fst (QdrantBase.scroll source_client (world st) name offset batch_size)))]"
  by (simp add: scroll_and_upload_def Let_def logged_def)

lemma scroll_while_calls:
  assumes "scroll_while source_client dest_client name batch_size offset st = Some st'"
  shows "\<exists>cs. calls st' = calls st @ cs \<and> list_all (copy_call name) cs"
proof (rule scroll_while.raw_induct
    [where P = "\<lambda>s d n b off st st'. \<exists>cs. calls st' = calls st @ cs \<and> list_all (copy_call n) cs",
      OF _ assms], goal_cases)
  case (1 loop s d n b off st y)
  show ?case
  proof (cases "truthy_offset off")
    case False
    with 1(2) show ?thesis by simp
  next
    case True
    with 1(2) have "loop s d n b (fst (scroll_and_upload s d n b off st))
        (snd (scroll_and_upload s d n b off st)) = Some y"
      by simp
    from 1(1)[OF this] obtain cs where
      "calls y = calls (snd (scroll_and_upload s d n b off st)) @ cs" "list_all (copy_call n) cs"
      by blast
    then show ?thesis
      by (simp add: calls_scroll_and_upload copy_call_def)
  qed
qed

text \<open>
  Claim C6. Once the pages are copied (the loop of \<^verbatim>\<open>migrate_collection\<close> has
  ended, in the state \<open>st1\<close>), the function reads the point count of the collection on
  the source and on the destination. It succeeds if the two counts are equal, and
  otherwise fails with the error that holds both counts. In both cases the world it
  leaves is the world after the copy: the uploads, of which the first page's is in the
  log, are not undone.
\<close>

theorem migrate_collection_count_check:
  assumes "scroll_while source_client dest_client name batch_size
             (fst (scroll_and_upload source_client dest_client name batch_size None st))
             (snd (scroll_and_upload source_client dest_client name batch_size None st))
           = Some st1"
  shows "migrate_collection source_client dest_client name batch_size st
     = Some (if vectors_count (QdrantBase.get_collection source_client (world st1) name)
                = vectors_count (QdrantBase.get_collection dest_client (world st1) name)
             then Inr ()
             else Inl (AssertionError_vectors_count
                         (vectors_count (QdrantBase.get_collection source_client (world st1) name))
                         (vectors_count (QdrantBase.get_collection dest_client (world st1) name))),
             st1\<lparr>calls := calls st1 @ [(Source, GetCollection name), (Dest, GetCollection name)]\<rparr>)
   \<and> (\<exists>cs. calls st1 = calls st
          @ (Source, Scroll name None batch_size
               (fst (QdrantBase.scroll source_client (world st) name None batch_size))
               (snd (QdrantBase.scroll source_client (world st) name None batch_size)))
          # (Dest, UploadRecords name
               (fst (QdrantBase.scroll source_client (world st) name None batch_size)))
          # cs)"
proof -
  from scroll_while_calls[OF assms] obtain cs where
    "calls st1 = calls (snd (scroll_and_upload source_client dest_client name batch_size None st)) @ cs"
    by blast
  then have "\<exists>cs. calls st1 = calls st
          @ (Source, Scroll name None batch_size
               (fst (QdrantBase.scroll source_client (world st) name None batch_size))
               (snd (QdrantBase.scroll source_client (world st) name None batch_size)))
          # (Dest, UploadRecords name
               (fst (QdrantBase.scroll source_client (world st) name None batch_size)))
          # cs"
    by (simp add: calls_scroll_and_upload)
  moreover have "migrate_collection source_client dest_client name batch_size st
     = Some (if vectors_count (QdrantBase.get_collection source_client (world st1) name)
                = vectors_count (QdrantBase.get_collection dest_client (world st1) name)
             then Inr ()
             else Inl (AssertionError_vectors_count
                         (vectors_count (QdrantBase.get_collection source_client (world st1) name))
                         (vectors_count (QdrantBase.get_collection dest_client (world st1) name))),
             st1\<lparr>calls := calls st1 @ [(Source, GetCollection name), (Dest, GetCollection name)]\<rparr>)"
    using assms by (simp add: migrate_collection_def Let_def logged_def)
  ultimately show ?thesis by blast
qed

text \<open>
  Two runs it applies to: three points copied to a destination that counts them, and
  the same copy to a destination that answers with a count of \<open>0\<close>; the second run
  fails and the three points are at the destination all the same.
\<close>

theorem migrate_collection_count_check_witness:
  "map_option fst (migrate_collection memory_source memory_dest ''c'' 2
      \<lparr>world = (server [(''c'', [point 1, point 2, point 3])], server [(''c'', [])]), calls = []\<rparr>)
     = Some (Inr ())
   \<and> map_option fst (migrate_collection memory_source (lagging memory_dest) ''c'' 2
      \<lparr>world = (server [(''c'', [point 1, point 2, point 3])], server [(''c'', [])]), calls = []\<rparr>)
     = Some (Inl (AssertionError_vectors_count 3 0))
   \<and> map_option (\<lambda>r. points (collection (snd (world (snd r))) ''c''))
        (migrate_collection memory_source (lagging memory_dest) ''c'' 2
      \<lparr>world = (server [(''c'', [point 1, point 2, point 3])], server [(''c'', [])]), calls = []\<rparr>)
     = Some [point 1, point 2, point 3]"
proof -
  let ?st = "\<lparr>world = (server [(''c'', [point 1, point 2, point 3])], server [(''c'', [])]),
              calls = []\<rparr> :: (nat memory_server \<times> nat memory_server, nat) run"
  have "\<exists>st1. scroll_while memory_source memory_dest ''c'' 2
             (fst (scroll_and_upload memory_source memory_dest ''c'' 2 None ?st))
             (snd (scroll_and_upload memory_source memory_dest ''c'' 2 None ?st)) = Some st1
      \<and> vectors_count (QdrantBase.get_collection memory_source (world st1) ''c'') = 3
      \<and> vectors_count (QdrantBase.get_collection memory_dest (world st1) ''c'') = 3"
    by (simp add: scroll_and_upload_def Let_def logged_def truthy_offset_def scroll_while.simps
        example_defs)
  then obtain st1 where 1: "scroll_while memory_source memory_dest ''c'' 2
             (fst (scroll_and_upload memory_source memory_dest ''c'' 2 None ?st))
             (snd (scroll_and_upload memory_source memory_dest ''c'' 2 None ?st)) = Some st1"
      "vectors_count (QdrantBase.get_collection memory_source (world st1) ''c'') = 3"
      "vectors_count (QdrantBase.get_collection memory_dest (world st1) ''c'') = 3"
    by blast
  have "\<exists>st1. scroll_while memory_source (lagging memory_dest) ''c'' 2
             (fst (scroll_and_upload memory_source (lagging memory_dest) ''c'' 2 None ?st))
             (snd (scroll_and_upload memory_source (lagging memory_dest) ''c'' 2 None ?st)) = Some st1
      \<and> vectors_count (QdrantBase.get_collection memory_source (world st1) ''c'') = 3
      \<and> vectors_count (QdrantBase.get_collection (lagging memory_dest) (world st1) ''c'') = 0
      \<and> points (collection (snd (world st1)) ''c'') = [point 1, point 2, point 3]"
    by (simp add: scroll_and_upload_def Let_def logged_def truthy_offset_def scroll_while.simps
        lagging_def example_defs)
  then obtain st1' where 2: "scroll_while memory_source (lagging memory_dest) ''c'' 2
             (fst (scroll_and_upload memory_source (lagging memory_dest) ''c'' 2 None ?st))
             (snd (scroll_and_upload memory_source (lagging memory_dest) ''c'' 2 None ?st)) = Some st1'"
      "vectors_count (QdrantBase.get_collection memory_source (world st1') ''c'') = 3"
      "vectors_count (QdrantBase.get_collection (lagging memory_dest) (world st1') ''c'') = 0"
      "points (collection (snd (world st1')) ''c'') = [point 1, point 2, point 3]"
    by blast
  from migrate_collection_count_check [OF 1(1)] migrate_collection_count_check [OF 2(1)] 1(2,3) 2(2,3,4) show ?thesis
    by simp
qed

text \<open>
  Claim C5. The source is a server in memory whose collection holds the five records
  \<open>r1\<close> to \<open>r5\<close>, with ids that differ; the batch size is \<open>2\<close>. The offsets that
  the server hands out are the ids of \<open>r3\<close> and \<open>r5\<close>, and the loop goes on only on
  an offset that is true (an id other than \<open>0\<close> and the empty string). Then
  \<^verbatim>\<open>migrate_collection\<close> makes exactly three scrolls, which return the pages
  \<open>[r1, r2]\<close>, \<open>[r3, r4]\<close> and \<open>[r5]\<close>, each followed by the upload of that page,
  and then reads the two counts. Uploaded to an empty collection, the records arrive in
  the source's order and the function succeeds.
\<close>

theorem migrate_collection_five_records_batch_two:
  assumes "points (collection S name) = [r1, r2, r3, r4, r5]"
    and "distinct (map record_id [r1, r2, r3, r4, r5])"
    and "truthy_offset (Some (record_id r3))"
    and "truthy_offset (Some (record_id r5))"
  shows "map_option (\<lambda>r. calls (snd r))
           (migrate_collection memory_source memory_dest name 2 \<lparr>world = (S, D), calls = []\<rparr>)
     = Some [(Source, Scroll name None 2 [r1, r2] (Some (record_id r3))),
             (Dest, UploadRecords name [r1, r2]),
             (Source, Scroll name (Some (record_id r3)) 2 [r3, r4] (Some (record_id r5))),
             (Dest, UploadRecords name [r3, r4]),
             (Source, Scroll name (Some (record_id r5)) 2 [r5] None),
             (Dest, UploadRecords name [r5]),
             (Source, GetCollection name),
             (Dest, GetCollection name)]
   \<and> (points (collection D name) = [] \<longrightarrow>
        map_option (\<lambda>r. (fst r, points (collection (snd (world (snd r))) name)))
           (migrate_collection memory_source memory_dest name 2 \<lparr>world = (S, D), calls = []\<rparr>)
        = Some (Inr (), [r1, r2, r3, r4, r5]))"
proof -
  let ?src = "memory_source :: ('a memory_server \<times> 'a memory_server, 'a) QdrantBase"
  let ?dst = "memory_dest :: ('a memory_server \<times> 'a memory_server, 'a) QdrantBase"
  have not_truthy: "\<not> truthy_offset None" by (simp add: truthy_offset_def)
  have s1: "memory_scroll [r1, r2, r3, r4, r5] None 2 = ([r1, r2], Some (record_id r3))"
    by (simp add: memory_scroll_def)
  have s2: "memory_scroll [r1, r2, r3, r4, r5] (Some (record_id r3)) 2
      = ([r3, r4], Some (record_id r5))"
    using assms(2) by (simp add: memory_scroll_def)
  have s3: "memory_scroll [r1, r2, r3, r4, r5] (Some (record_id r5)) 2 = ([r5], None)"
    using assms(2) by (simp add: memory_scroll_def)
  have scroll: "QdrantBase.scroll ?src (S, D') name offset limit
      = memory_scroll [r1, r2, r3, r4, r5] offset limit" for D' offset limit
    using assms(1) by (simp add: memory_source_def memory_client_def)
  have up: "QdrantBase.upload_records ?dst name records (S, D')
      = (S, D'\<lparr>collection := (collection D')
            (name := (collection D' name)
               \<lparr>points := memory_upload (points (collection D' name)) records\<rparr>)\<rparr>)" for D' records
    by (simp add: memory_dest_def memory_client_def)
  have step: "scroll_and_upload ?src ?dst name 2 offset \<lparr>world = (S, D'), calls = cs\<rparr>
      = (snd (memory_scroll [r1, r2, r3, r4, r5] offset 2),
         \<lparr>world = (S, D'\<lparr>collection := (collection D')
            (name := (collection D' name)
               \<lparr>points := memory_upload (points (collection D' name))
                    (fst (memory_scroll [r1, r2, r3, r4, r5] offset 2))\<rparr>)\<rparr>),
          calls = cs @ [(Source, Scroll name offset 2
                          (fst (memory_scroll [r1, r2, r3, r4, r5] offset 2))
                          (snd (memory_scroll [r1, r2, r3, r4, r5] offset 2))),
                        (Dest, UploadRecords name
                          (fst (memory_scroll [r1, r2, r3, r4, r5] offset 2)))]\<rparr>)"
    for D' cs offset
    by (simp add: scroll_and_upload_def Let_def logged_def scroll up)
  have count_src: "vectors_count (QdrantBase.get_collection ?src (S, D') name) = 5" for D'
    using assms(1) by (simp add: memory_source_def memory_client_def)
  have count_dst: "vectors_count (QdrantBase.get_collection ?dst (S, D') name)
      = length (points (collection D' name))" for D'
    by (simp add: memory_dest_def memory_client_def)
  have ids: "record_id r1 \<noteq> record_id r3" "record_id r2 \<noteq> record_id r3"
    "record_id r1 \<noteq> record_id r5" "record_id r2 \<noteq> record_id r5" "record_id r3 \<noteq> record_id r5"
    "record_id r4 \<noteq> record_id r5" "record_id r1 \<noteq> record_id r4" "record_id r2 \<noteq> record_id r4"
     "record_id r3 \<noteq> record_id r4" "record_id r1 \<noteq> record_id r2"
    using assms(2) by auto
  show ?thesis
    using assms(3,4) ids
    by (simp add: migrate_collection_def Let_def logged_def step s1 s2 s3 scroll_while.simps
        not_truthy count_src count_dst memory_upload_def)
qed

text \<open>The run with the five points of ids \<open>1\<close> to \<open>5\<close>.\<close>

theorem migrate_collection_five_records_batch_two_witness:
  "map_option (\<lambda>r. (fst r, calls (snd r), points (collection (snd (world (snd r))) ''c'')))
     (migrate_collection memory_source memory_dest ''c'' 2
       \<lparr>world = (server [(''c'', [point 1, point 2, point 3, point 4, point 5])],
                 server [(''c'', [])]), calls = []\<rparr>)
     = Some (Inr (),
         [(Source, Scroll ''c'' None 2 [point 1, point 2] (Some (Id_int 3))),
          (Dest, UploadRecords ''c'' [point 1, point 2]),
          (Source, Scroll ''c'' (Some (Id_int 3)) 2 [point 3, point 4] (Some (Id_int 5))),
          (Dest, UploadRecords ''c'' [point 3, point 4]),
          (Source, Scroll ''c'' (Some (Id_int 5)) 2 [point 5] None),
          (Dest, UploadRecords ''c'' [point 5]),
          (Source, GetCollection ''c''),
          (Dest, GetCollection ''c'')],
         [point 1, point 2, point 3, point 4, point 5])"
proof -
  have 1: "points (collection (server [(''c'', [point 1, point 2, point 3, point 4, point 5])]) ''c'')
      = [point 1, point 2, point 3, point 4, point 5]"
    by (simp add: server_def)
  have 2: "distinct (map record_id [point 1, point 2, point 3, point 4, point 5])"
    by (simp add: point_def)
  have 3: "truthy_offset (Some (record_id (point 3)))" "truthy_offset (Some (record_id (point 5)))"
    by (simp_all add: point_def truthy_offset_def)
  have 4: "points (collection (server [(''c'', [])]) ''c'') = []"
    by (simp add: server_def)
  from migrate_collection_five_records_batch_two [OF 1 2 3, of "server [(''c'', [])]"] 4 show ?thesis
    by (auto simp: point_def)
qed

subsection \<open>The collision policy Skip\<close>












end
